theory Spec2Isabelle
  imports Complex_Main
begin

section \<open>Plate kinematics of \<open>mobile_prototype.py\<close>\<close>

text \<open>
  The kinematics core of the dashboard consists of \<open>years_between\<close>, \<open>euler_to_vel\<close>,
  \<open>predict_position\<close> and the two inlined displacement expressions of the main block.

  Numbers: Python floats are idealised as real numbers, so rounding, overflow, infinities
  and NaN are outside this model. The trigonometric functions are the real \<open>sin\<close> and
  \<open>cos\<close>, and \<open>math.pi\<close> is \<open>pi\<close>.

  Errors: Python's \<open>/\<close> raises \<open>ZeroDivisionError\<close> on a zero divisor. Every division of
  the core but one divides by a non-zero literal; the remaining one, in
  \<open>predict_position\<close>, divides by \<open>R * cos (radians lat)\<close> and is modelled as fallible.
  Over the reals that divisor vanishes exactly at \<open>lat = 90 + 180 k\<close>. In IEEE
  arithmetic \<open>cos (radians lat)\<close> is never exactly zero (at \<open>lat = 90.0\<close> it is about
  \<open>6.1e-17\<close>), so the running program divides by a tiny number there instead of raising.
  Statements about \<open>predict_position\<close> therefore carry the side condition that the
  divisor is non-zero, which holds for every latitude strictly between the poles.
\<close>

subsection \<open>Library functions used by the source\<close>

text \<open>\<open>math.radians\<close> and \<open>math.degrees\<close> multiply by \<open>pi / 180\<close> and \<open>180 / pi\<close>.\<close>

definition radians :: "real \<Rightarrow> real" where
  "radians x = x * (pi / 180)"

definition degrees :: "real \<Rightarrow> real" where
  "degrees x = x * (180 / pi)"

datatype error = ZeroDivisionError

text \<open>Python's true division on numbers.\<close>

definition truediv :: "real \<Rightarrow> real \<Rightarrow> error + real" where
  "truediv x y = (if y = 0 then Inl ZeroDivisionError else Inr (x / y))"

subsection \<open>The source functions\<close>

text \<open>
  \<open>years_between d1 d2 = (d2 - d1).days / 365.25\<close>. Both arguments are dates at midnight,
  represented by their day ordinals, so \<open>.days\<close> is the difference of the ordinals.
\<close>

definition years_between :: "int \<Rightarrow> int \<Rightarrow> real" where
  "years_between d1 d2 = real_of_int (d2 - d1) / 365.25"

text \<open>
  \<open>euler_to_vel\<close>, with the three-element Python lists as lists, the list comprehension
  as \<open>map\<close> and the two generator sums over \<open>range(3)\<close> as \<open>sum_list\<close> over \<open>[0..<3]\<close>.
\<close>

definition euler_to_vel ::
  "real \<Rightarrow> real \<Rightarrow> real \<Rightarrow> real \<Rightarrow> real \<Rightarrow> real \<times> real" where
  "euler_to_vel lat_deg lon_deg pole_lat_deg pole_lon_deg omega_deg_Myr =
    (let lat = radians lat_deg;
         lon = radians lon_deg;
         plat = radians pole_lat_deg;
         plon = radians pole_lon_deg;
         omega_rad = radians omega_deg_Myr / 1000000;
         R = 6371000;
         r = [cos lat * cos lon,
              cos lat * sin lon,
              sin lat];
         w = [omega_rad * cos plat * cos plon,
              omega_rad * cos plat * sin plon,
              omega_rad * sin plat];
         v = [w ! 1 * r ! 2 - w ! 2 * r ! 1,
              w ! 2 * r ! 0 - w ! 0 * r ! 2,
              w ! 0 * r ! 1 - w ! 1 * r ! 0];
         v_m_per_yr = map (\<lambda>c. c * R) v;
         east = [- sin lon, cos lon, 0];
         north = [- sin lat * cos lon, - sin lat * sin lon, cos lat];
         ve = sum_list (map (\<lambda>i. v_m_per_yr ! i * east ! i) [0..<3]);
         vn = sum_list (map (\<lambda>i. v_m_per_yr ! i * north ! i) [0..<3])
     in (ve * 1000, vn * 1000))"

text \<open>
  \<open>predict_position\<close>. The latitude change is computed first and cannot fail; the
  longitude change is the fallible division.
\<close>

definition predict_position ::
  "real \<Rightarrow> real \<Rightarrow> real \<Rightarrow> real \<Rightarrow> real \<Rightarrow> error + (real \<times> real)" where
  "predict_position lat lon ve_mm_yr vn_mm_yr years =
    (let R = 6371000;
         ve = ve_mm_yr / 1000;
         vn = vn_mm_yr / 1000;
         dlat = (vn * years) / R
     in case truediv (ve * years) (R * cos (radians lat)) of
          Inl e \<Rightarrow> Inl e
        | Inr dlon \<Rightarrow>
            (let lat2 = lat + degrees dlat;
                 lon2 = lon + degrees dlon
             in Inr (lat2, lon2)))"

text \<open>
  \<open>predict_position\<close> with the number that \<open>math.cos(math.radians(lat))\<close> evaluates to
  taken as the parameter \<open>c\<close>, and everything else as above. With \<open>c = cos (radians lat)\<close>
  it is \<open>predict_position\<close>. It states what the function does with the cosine a
  floating-point library returns, which is never exactly zero.
\<close>

definition predict_position_with_cos ::
  "real \<Rightarrow> real \<Rightarrow> real \<Rightarrow> real \<Rightarrow> real \<Rightarrow> real \<Rightarrow> error + (real \<times> real)" where
  "predict_position_with_cos c lat lon ve_mm_yr vn_mm_yr years =
    (let R = 6371000;
         ve = ve_mm_yr / 1000;
         vn = vn_mm_yr / 1000;
         dlat = (vn * years) / R
     in case truediv (ve * years) (R * c) of
          Inl e \<Rightarrow> Inl e
        | Inr dlon \<Rightarrow>
            (let lat2 = lat + degrees dlat;
                 lon2 = lon + degrees dlon
             in Inr (lat2, lon2)))"

text \<open>
  The main block computes \<open>displacement_mm\<close> once for the whole span, and \<open>disp_t\<close> for
  every sampled time \<open>t\<close> of the time series; both are the same inlined expression.
\<close>

definition displacement_mm :: "real \<Rightarrow> real \<Rightarrow> real \<Rightarrow> real" where
  "displacement_mm ve vn years = sqrt ((ve * years)\<^sup>2 + (vn * years)\<^sup>2)"

definition disp_t :: "real \<Rightarrow> real \<Rightarrow> real \<Rightarrow> real" where
  "disp_t ve vn t = sqrt ((ve * t)\<^sup>2 + (vn * t)\<^sup>2)"

subsection \<open>The velocity formula in the words of the specification\<close>

type_synonym vec3 = "real \<times> real \<times> real"

definition vec_cross :: "vec3 \<Rightarrow> vec3 \<Rightarrow> vec3" where
  "vec_cross a b = (case a of (a1, a2, a3) \<Rightarrow> case b of (b1, b2, b3) \<Rightarrow>
     (a2 * b3 - a3 * b2, a3 * b1 - a1 * b3, a1 * b2 - a2 * b1))"

definition vec_dot :: "vec3 \<Rightarrow> vec3 \<Rightarrow> real" where
  "vec_dot a b = (case a of (a1, a2, a3) \<Rightarrow> case b of (b1, b2, b3) \<Rightarrow>
     a1 * b1 + a2 * b2 + a3 * b3)"

definition vec_scale :: "real \<Rightarrow> vec3 \<Rightarrow> vec3" where
  "vec_scale k a = (case a of (a1, a2, a3) \<Rightarrow> (k * a1, k * a2, k * a3))"

text \<open>The unit Cartesian vector of a latitude and a longitude given in radians.\<close>

definition unit_vector :: "real \<Rightarrow> real \<Rightarrow> vec3" where
  "unit_vector lat lon = (cos lat * cos lon, cos lat * sin lon, sin lat)"

text \<open>
  The specification's velocity: \<open>r\<close> the unit vector of the point, \<open>w\<close> the rotation rate
  in radians per year times the unit vector of the pole, \<open>v = w \<times> r\<close> scaled by the
  Earth radius, projected on the local east and north vectors, in millimetres per year.
\<close>

definition spec_velocity ::
  "real \<Rightarrow> real \<Rightarrow> real \<Rightarrow> real \<Rightarrow> real \<Rightarrow> real \<times> real" where
  "spec_velocity lat_deg lon_deg plat_deg plon_deg rate =
    (let lat = radians lat_deg;
         lon = radians lon_deg;
         r = unit_vector lat lon;
         w = vec_scale (radians rate / 1000000)
               (unit_vector (radians plat_deg) (radians plon_deg));
         v = vec_scale 6371000 (vec_cross w r);
         east = (- sin lon, cos lon, 0);
         north = (- sin lat * cos lon, - sin lat * sin lon, cos lat)
     in (1000 * vec_dot v east, 1000 * vec_dot v north))"

section \<open>Auxiliary facts\<close>

lemma upt_0_3: "[0..<3] = [0, 1, 2]"
  by (simp add: upt_rec)

lemma cos_radians_pos:
  assumes "\<bar>lat\<bar> < 90"
  shows "0 < cos (radians lat)"
proof -
  have "- 90 < lat" "lat < 90" using assms by auto
  then have "- 90 * (pi / 180) < lat * (pi / 180)" "lat * (pi / 180) < 90 * (pi / 180)"
    using pi_gt_zero
    by (simp_all only: mult_less_cancel_right_pos divide_pos_pos zero_less_numeral)
  then have "- (pi / 2) < radians lat" "radians lat < pi / 2"
    by (simp_all add: radians_def)
  then show ?thesis by (rule cos_gt_zero_pi)
qed

lemma predict_position_value:
  assumes "cos (radians lat) \<noteq> 0"
  shows "predict_position lat lon ve vn t =
    Inr (lat + degrees ((vn / 1000 * t) / 6371000),
         lon + degrees ((ve / 1000 * t) / (6371000 * cos (radians lat))))"
  using assms by (simp add: predict_position_def truediv_def Let_def)

lemma predict_position_with_cos_exact:
  "predict_position_with_cos (cos (radians lat)) lat lon ve vn t =
     predict_position lat lon ve vn t"
  by (simp add: predict_position_with_cos_def predict_position_def)

lemma displacement_abs: "displacement_mm ve vn t = \<bar>t\<bar> * sqrt (ve\<^sup>2 + vn\<^sup>2)"
proof -
  have "(ve * t)\<^sup>2 + (vn * t)\<^sup>2 = t\<^sup>2 * (ve\<^sup>2 + vn\<^sup>2)"
    by (simp add: power_mult_distrib distrib_left mult.commute)
  then show ?thesis
    by (simp add: displacement_mm_def real_sqrt_mult)
qed

lemma disp_t_displacement: "disp_t ve vn t = displacement_mm ve vn t"
  by (simp add: disp_t_def displacement_mm_def)

section \<open>Velocity from an Euler pole\<close>

text \<open>
  C1. For every point and every Euler pole, \<open>euler_to_vel\<close> returns the east and north
  components, in mm/yr, of \<open>v = w \<times> r\<close> scaled by \<open>R = 6371000\<close>, where \<open>r\<close> is the unit
  vector of the point, \<open>w\<close> is the rate in radians per year times the unit vector of the
  pole, and the components are the dot products with the local east and north vectors.
\<close>

theorem C1_euler_to_vel_cross_product:
  "euler_to_vel lat lon plat plon rate = spec_velocity lat lon plat plon rate"
  unfolding euler_to_vel_def spec_velocity_def
  by (simp add: Let_def upt_0_3 vec_cross_def vec_dot_def vec_scale_def unit_vector_def
      algebra_simps)

text \<open>
  C8. For every point on the equator and every Euler pole at latitude 90 degrees, the
  north component of \<open>euler_to_vel\<close> is 0: the velocity is purely east or west.
\<close>

theorem C8_equator_north_pole_no_north_component:
  "snd (euler_to_vel 0 lon 90 plon omega) = 0"
  unfolding euler_to_vel_def
  by (simp add: Let_def upt_0_3 radians_def)

section \<open>Position prediction\<close>

text \<open>
  C2. For every point whose latitude has a non-zero cosine (every point strictly between
  the poles), every velocity in mm/yr and every elapsed time \<open>t\<close> in years,
  \<open>predict_position\<close> returns the latitude plus \<open>degrees ((vn / 1000 * t) / R)\<close> and the
  longitude plus \<open>degrees ((ve / 1000 * t) / (R * cos (radians lat)))\<close>, with
  \<open>R = 6371000\<close>: both changes are added to the original coordinates.
\<close>

theorem C2_predict_position_formula:
  assumes "cos (radians lat) \<noteq> 0"
  shows "predict_position lat lon ve vn t =
    Inr (lat + degrees ((vn / 1000 * t) / 6371000),
         lon + degrees ((ve / 1000 * t) / (6371000 * cos (radians lat))))"
  using assms by (simp add: predict_position_def truediv_def Let_def)

theorem C2_predict_position_formula_witness:
  "cos (radians 30.0444) \<noteq> 0 \<and>
   predict_position 30.0444 31.2357 20 5 25.6 =
    Inr (30.0444 + degrees ((5 / 1000 * 25.6) / 6371000),
         31.2357 + degrees ((20 / 1000 * 25.6) / (6371000 * cos (radians 30.0444))))"
proof -
  have "\<bar>30.0444 :: real\<bar> < 90" by simp
  then have h: "cos (radians 30.0444) \<noteq> 0"
    using cos_radians_pos by fastforce
  show ?thesis
    using h C2_predict_position_formula [OF h, of "31.2357" 20 5 "25.6"] by simp
qed




text \<open>
  C5. For every point whose latitude has a non-zero cosine and every velocity,
  \<open>predict_position\<close> with elapsed time 0 returns the point unchanged, and the
  displacement magnitude at elapsed time 0 is 0.
\<close>

theorem C5_identity_at_zero_time:
  assumes "cos (radians lat) \<noteq> 0"
  shows "predict_position lat lon ve vn 0 = Inr (lat, lon)
     \<and> displacement_mm ve vn 0 = 0 \<and> disp_t ve vn 0 = 0"
  using assms
  by (simp add: predict_position_value degrees_def displacement_mm_def disp_t_def)

theorem C5_identity_at_zero_time_witness:
  "cos (radians 0) \<noteq> 0 \<and> predict_position 0 31.2357 20 5 0 = Inr (0, 31.2357)
    \<and> displacement_mm 20 5 0 = 0 \<and> disp_t 20 5 0 = 0"
  using C5_identity_at_zero_time [of 0 "31.2357" 20 5]
  by (simp add: radians_def)

text \<open>
  C9. A degenerate time span, whose end is not after its start, gives zero or negative
  elapsed years, and \<open>predict_position\<close> is still defined there: it returns the point moved
  backward by the absolute elapsed time, without raising. \<open>euler_to_vel\<close> takes no elapsed
  time and is a total function.
\<close>

theorem C9_degenerate_time_span:
  assumes "cos (radians lat) \<noteq> 0" and "end_day \<le> start_day"
  shows "years_between start_day end_day \<le> 0
     \<and> predict_position lat lon ve vn (years_between start_day end_day) =
         Inr (lat - degrees ((vn / 1000 * \<bar>years_between start_day end_day\<bar>) / 6371000),
              lon - degrees ((ve / 1000 * \<bar>years_between start_day end_day\<bar>)
                               / (6371000 * cos (radians lat))))"
proof -
  have neg: "years_between start_day end_day \<le> 0"
    using assms(2) by (simp add: years_between_def divide_nonpos_pos)
  then have "\<bar>years_between start_day end_day\<bar> = - years_between start_day end_day"
    by simp
  then show ?thesis using neg assms(1)
    by (simp add: predict_position_value degrees_def field_simps)
qed

text \<open>The span from 2025-08-15 back to 2000-01-01, by day ordinals, at the equator.\<close>

theorem C9_degenerate_time_span_witness:
  "cos (radians 0) \<noteq> 0 \<and> (730120 :: int) \<le> 739478
   \<and> years_between 739478 730120 \<le> 0
   \<and> predict_position 0 31.2357 20 5 (years_between 739478 730120) =
         Inr (0 - degrees ((5 / 1000 * \<bar>years_between 739478 730120\<bar>) / 6371000),
              31.2357 - degrees ((20 / 1000 * \<bar>years_between 739478 730120\<bar>)
                               / (6371000 * cos (radians 0))))"
proof -
  have h1: "cos (radians 0) \<noteq> 0" by (simp add: radians_def)
  have h2: "(730120 :: int) \<le> 739478" by simp
  show ?thesis
    using h1 h2 C9_degenerate_time_span [OF h1 h2, of "31.2357" 20 5] by simp
qed

section \<open>Displacement magnitude\<close>

text \<open>
  C3. For every velocity in mm/yr and every elapsed time \<open>t\<close> in years, the displacement
  magnitude in mm, of the whole span and of every sample of the time series, is
  \<open>sqrt ((ve * t)\<^sup>2 + (vn * t)\<^sup>2)\<close>.
\<close>

theorem C3_displacement_formula:
  "displacement_mm ve vn t = sqrt ((ve * t)\<^sup>2 + (vn * t)\<^sup>2)
   \<and> disp_t ve vn t = sqrt ((ve * t)\<^sup>2 + (vn * t)\<^sup>2)"
  by (simp add: displacement_mm_def disp_t_def)

text \<open>
  C7. For every fixed velocity the displacement magnitude is non-decreasing in the
  elapsed time from 0 on: for all \<open>0 \<le> t1 \<le> t2\<close> the displacement at \<open>t1\<close> is at most
  the displacement at \<open>t2\<close>.
\<close>

theorem C7_displacement_monotone:
  assumes "0 \<le> t1" and "t1 \<le> t2"
  shows "displacement_mm ve vn t1 \<le> displacement_mm ve vn t2
     \<and> disp_t ve vn t1 \<le> disp_t ve vn t2"
  using assms by (simp add: disp_t_displacement displacement_abs mult_right_mono)

theorem C7_displacement_monotone_witness:
  "(0 :: real) \<le> 1 \<and> (1 :: real) \<le> 2
   \<and> displacement_mm 20 5 1 \<le> displacement_mm 20 5 2 \<and> disp_t 20 5 1 \<le> disp_t 20 5 2"
  using C7_displacement_monotone [of 1 2 20 5] by simp

text \<open>
  C10. For every velocity and every elapsed time \<open>t\<close>, negative ones included, the
  displacement magnitude is \<open>\<bar>t\<bar> * sqrt (ve\<^sup>2 + vn\<^sup>2)\<close>; it is never negative, and it is
  the same at \<open>- t\<close> and at \<open>t\<close>.
\<close>

theorem C10_displacement_abs_time:
  "displacement_mm ve vn t = \<bar>t\<bar> * sqrt (ve\<^sup>2 + vn\<^sup>2)
   \<and> disp_t ve vn t = \<bar>t\<bar> * sqrt (ve\<^sup>2 + vn\<^sup>2)
   \<and> 0 \<le> displacement_mm ve vn t
   \<and> 0 \<le> disp_t ve vn t
   \<and> displacement_mm ve vn (- t) = displacement_mm ve vn t
   \<and> disp_t ve vn (- t) = disp_t ve vn t"
  by (simp add: disp_t_displacement displacement_abs)

end
